theory Spec2Isabelle
  imports Complex_Main "HOL-Library.Log_Nat"
begin

section \<open>Numbers: Python floats as binary64 values\<close>

text \<open>
  The amounts of \<^verbatim>\<open>wizzair_monitor.py\<close> come from JSON and are Python floats. A finite
  float is a rational number, so an amount is modelled by its exact value, and every
  operation that rounds in Python rounds here: \<open>bin64\<close> is IEEE 754 binary64
  round-to-nearest, ties to even (53-bit significand, smallest quantum \<open>2 powi - 1074\<close>).
  Scope of the number model: finite values; a JSON integer below \<open>2 ^ 53\<close> behaves in
  every operation used here as the float of the same value. Infinities, NaN and the sign
  of a zero are not represented. The only operation of the program that can leave the
  finite range is the subtraction of line 235, whose result is only compared with 0.01.
\<close>

definition rhe :: "rat \<Rightarrow> int" where
  \<comment> \<open>round half to even: the nearest integer, the even one on a tie\<close>
  "rhe x = (let f = \<lfloor>x\<rfloor>; d = x - of_int f in
     if d < 1 / 2 then f else if 1 / 2 < d then f + 1 else if even f then f else f + 1)"

definition expo :: "rat \<Rightarrow> int" where
  \<comment> \<open>the binary exponent \<open>e\<close> of a non-zero \<open>x\<close>: \<open>2 powi e \<le> \<bar>x\<bar> < 2 powi (e + 1)\<close>\<close>
  "expo x = (let (p, q) = quotient_of \<bar>x\<bar>; d = bitlen p - bitlen q in
     if 2 powi d \<le> \<bar>x\<bar> then d else d - 1)"

definition quantum :: "rat \<Rightarrow> rat" where
  \<comment> \<open>the spacing of the binary64 values around \<open>x\<close>\<close>
  "quantum x = 2 powi (max (expo x - 52) (- 1074))"

definition bin64 :: "rat \<Rightarrow> rat" where
  "bin64 x = (if x = 0 then 0 else of_int (rhe (x / quantum x)) * quantum x)"

definition is_bin64 :: "rat \<Rightarrow> bool" where
  \<comment> \<open>\<open>x\<close> is the value of a float\<close>
  "is_bin64 x = (bin64 x = x)"

definition py_sub :: "rat \<Rightarrow> rat \<Rightarrow> rat" where
  "py_sub a b = bin64 (a - b)"

definition py_truediv :: "rat \<Rightarrow> rat \<Rightarrow> rat" where
  "py_truediv a b = bin64 (a / b)"

definition py_round2 :: "rat \<Rightarrow> rat" where
  \<comment> \<open>\<^verbatim>\<open>round(x, 2)\<close>: the float nearest to the correctly rounded two-decimal value\<close>
  "py_round2 x = bin64 (of_int (rhe (x * 100)) / 100)"

definition FLOAT_0_01 :: rat where
  \<comment> \<open>the literal \<^verbatim>\<open>0.01\<close>\<close>
  "FLOAT_0_01 = bin64 (1 / 100)"

definition FLOAT_4_9 :: rat where
  \<comment> \<open>the literal \<^verbatim>\<open>4.9\<close>\<close>
  "FLOAT_4_9 = bin64 (49 / 10)"

section \<open>Price formatting\<close>

definition digit_char :: "nat \<Rightarrow> char" where
  "digit_char d = ''0123456789'' ! d"

function str_nat :: "nat \<Rightarrow> string" where
  "str_nat n = (if n < 10 then [digit_char n] else str_nat (n div 10) @ [digit_char (n mod 10)])"
  by pat_completeness auto
termination
  by (relation "measure (\<lambda>n. n)") auto

definition fmt2 :: "rat \<Rightarrow> string" where
  \<comment> \<open>\<^verbatim>\<open>f"{x:.2f}"\<close>: the exact value of the float, correctly rounded to two decimals\<close>
  "fmt2 x = (let c = nat (rhe (\<bar>x\<bar> * 100)) in
     (if x < 0 then ''-'' else '''') @ str_nat (c div 100) @ ''.'' @
     [digit_char (c mod 100 div 10), digit_char (c mod 10)])"

definition APPROX :: string where
  \<comment> \<open>the sign U+2248 (almost equal to), in UTF-8\<close>
  "APPROX = [CHR 0xE2, CHR 0x89, CHR 0x88]"

definition EN_DASH :: string where
  \<comment> \<open>the placeholder U+2013 (en dash), in UTF-8\<close>
  "EN_DASH = [CHR 0xE2, CHR 0x80, CHR 0x93]"

definition format_price :: "rat \<Rightarrow> string \<Rightarrow> string" where
  "format_price price currency =
     (if currency = ''RON'' then
        (let price_eur = py_round2 (py_truediv price FLOAT_4_9) in
         fmt2 price @ '' RON ('' @ APPROX @ '' '' @ fmt2 price_eur @ '' EUR)'')
      else if currency = ''EUR'' then fmt2 price @ '' EUR''
      else fmt2 price @ '' '' @ currency)"

text \<open>
  Reading a number back from text, as Python's \<^verbatim>\<open>float(s)\<close> does for a string of the shape
  \<open>fmt2\<close> writes (an optional minus sign, digits, a point, digits): the decimal value,
  rounded to the nearest float. The program never calls it; it states what re-formatting
  the numeric content of a formatted price means.
\<close>

definition nat_of_digits :: "string \<Rightarrow> nat" where
  "nat_of_digits s = foldl (\<lambda>a c. 10 * a + (of_char c - 48)) 0 s"

definition dec_value :: "string \<Rightarrow> rat" where
  "dec_value s =
     (let neg = (take 1 s = ''-'');
          r = (if neg then drop 1 s else s);
          ip = takeWhile (\<lambda>c. c \<noteq> CHR ''.'') r;
          fp = drop 1 (dropWhile (\<lambda>c. c \<noteq> CHR ''.'') r);
          m = of_nat (nat_of_digits ip) + of_nat (nat_of_digits fp) / 10 ^ length fp
      in if neg then - m else m)"

definition py_float :: "string \<Rightarrow> rat" where
  "py_float s = bin64 (dec_value s)"

section \<open>Routes and airports\<close>

record route =
  route_origin :: string
  route_destination :: string
  route_depart_date :: string
  route_adults :: "int option"

definition get_route_id :: "route \<Rightarrow> string" where
  "get_route_id r = route_origin r @ ''-'' @ route_destination r @ ''-'' @ route_depart_date r"

definition get_city_name_with_code :: "(string \<rightharpoonup> string) \<Rightarrow> string \<Rightarrow> string" where
  \<comment> \<open>the first argument is the table \<^verbatim>\<open>AIRPORT_CODES\<close>\<close>
  "get_city_name_with_code airport_codes airport_code =
     (let city_name = (case airport_codes airport_code of None \<Rightarrow> airport_code | Some n \<Rightarrow> n) in
      if city_name = airport_code then city_name
      else city_name @ '' ('' @ airport_code @ '')'')"

section \<open>Effects: exceptions, log records, messages, events\<close>

datatype py_exn =
  RequestException
  | HTTPError nat string
  | ValueError
  | AttributeError
  | OSError
  | JSONDecodeError

datatype log_record =
  ApiVersionUpdated string string
  | ApiVersionCurrent string
  | ApiVersionNotExtracted
  | ApiVersionRequestFailed py_exn
  | UsingApiVersion string
  | RoutesFileMissing
  | CheckingRoute nat nat string string string
  | NoPriceAvailable string "string option"
  | PriceNotFound string
  | FareHttpError string string nat string
  | FareRequestFailed string string py_exn
  | PriceUnchanged string string
  | PrevPricesWriteFailed py_exn
  | NoPriceChanges
  | NextCheckIn nat

datatype arrow = Up | Down

datatype message =
  PriceChanged (msg_arrow: arrow) (msg_origin: string) (msg_destination: string)
    (msg_date: string) (msg_price: string) (msg_old: string)
  | FetchFailed string string string

record observation =
  obs_price :: rat
  obs_currency :: string

type_synonym store = "(string \<times> observation) list"

datatype event =
  GetBuildNumber
  | PostFareChart string string string string int
  | SendTelegram message
  | Sleep nat
  | ReadPrevPrices
  | WritePrevPrices store
  | Log log_record

text \<open>
  A text message is modelled by the values its f-string interpolates (lines 226 to 229 and
  240 to 245); the fixed wording around them is left out. \<open>SendTelegram m\<close> is the call
  \<^verbatim>\<open>send_telegram(m)\<close>: whether the post then succeeds only selects a log line inside that
  function, and no exception leaves it.
\<close>

definition send_telegram :: "message \<Rightarrow> event list" where
  "send_telegram msg = [SendTelegram msg]"

section \<open>The API version resolver\<close>

definition CHECK_INTERVAL_MINUTES :: nat where
  "CHECK_INTERVAL_MINUTES = 60"

definition ROUTE_DELAY_SECONDS :: nat where
  "ROUTE_DELAY_SECONDS = 5"

definition DEFAULT_API_VERSION :: string where
  "DEFAULT_API_VERSION = ''27.36.0''"

definition BE_HOST :: string where
  "BE_HOST = ''https://be.wizzair.com/''"

datatype http_reply = NoResponse | Response nat string

definition raise_for_status :: "nat \<Rightarrow> bool" where
  \<comment> \<open>\<^verbatim>\<open>resp.raise_for_status()\<close> of the requests library raises for a 4xx or 5xx status\<close>
  "raise_for_status status = (400 \<le> status \<and> status < 600)"

text \<open>
  Texts are modelled by their UTF-8 encoding, a \<open>char\<close> being a byte. The pattern of
  line 77 is applied to a \<^verbatim>\<open>str\<close>, where \<^verbatim>\<open>\d\<close> matches every Unicode decimal digit
  (the characters of category Nd), not only the ASCII ones. \<open>ND_STARTS\<close> lists the first
  code point of every block of ten decimal digits of Unicode 14.0, the database of
  Python 3.11.
\<close>

definition ND_STARTS :: "nat list" where
  "ND_STARTS =
     [0x30, 0x660, 0x6F0, 0x7C0, 0x966, 0x9E6, 0xA66, 0xAE6,
      0xB66, 0xBE6, 0xC66, 0xCE6, 0xD66, 0xDE6, 0xE50, 0xED0,
      0xF20, 0x1040, 0x1090, 0x17E0, 0x1810, 0x1946, 0x19D0, 0x1A80,
      0x1A90, 0x1B50, 0x1BB0, 0x1C40, 0x1C50, 0xA620, 0xA8D0, 0xA900,
      0xA9D0, 0xA9F0, 0xAA50, 0xABF0, 0xFF10, 0x104A0, 0x10D30, 0x11066,
      0x110F0, 0x11136, 0x111D0, 0x112F0, 0x11450, 0x114D0, 0x11650, 0x116C0,
      0x11730, 0x118E0, 0x11950, 0x11C50, 0x11D50, 0x11DA0, 0x16A60, 0x16AC0,
      0x16B50, 0x1D7CE, 0x1D7D8, 0x1D7E2, 0x1D7EC, 0x1D7F6, 0x1E140, 0x1E2F0,
      0x1E950, 0x1FBF0]"

definition is_decimal :: "nat \<Rightarrow> bool" where
  \<comment> \<open>the code point is a decimal digit\<close>
  "is_decimal cp = list_ex (\<lambda>s. s \<le> cp \<and> cp < s + 10) ND_STARTS"

definition utf8_cont :: "char \<Rightarrow> bool" where
  \<comment> \<open>a continuation byte\<close>
  "utf8_cont c = (0x80 \<le> (of_char c :: nat) \<and> (of_char c :: nat) < 0xC0)"

definition utf8_head :: "string \<Rightarrow> (nat \<times> nat) option" where
  \<comment> \<open>the first code point of a text and the number of bytes that encode it\<close>
  "utf8_head s =
     (case s of
        [] \<Rightarrow> None
      | c0 # cs \<Rightarrow>
          (let b0 = (of_char c0 :: nat) in
           if b0 < 0x80 then Some (b0, 1)
           else if 0xC2 \<le> b0 \<and> b0 < 0xE0 then
             (case cs of
                c1 # _ \<Rightarrow>
                  if utf8_cont c1 then Some ((b0 - 0xC0) * 64 + (of_char c1 - 0x80), 2)
                  else None
              | _ \<Rightarrow> None)
           else if 0xE0 \<le> b0 \<and> b0 < 0xF0 then
             (case cs of
                c1 # c2 # _ \<Rightarrow>
                  (let cp = (b0 - 0xE0) * 4096 + (of_char c1 - 0x80) * 64 + (of_char c2 - 0x80)
                   in if utf8_cont c1 \<and> utf8_cont c2 \<and> 0x800 \<le> cp then Some (cp, 3)
                      else None)
              | _ \<Rightarrow> None)
           else if 0xF0 \<le> b0 \<and> b0 < 0xF5 then
             (case cs of
                c1 # c2 # c3 # _ \<Rightarrow>
                  (let cp = (b0 - 0xF0) * 262144 + (of_char c1 - 0x80) * 4096
                              + (of_char c2 - 0x80) * 64 + (of_char c3 - 0x80)
                   in if utf8_cont c1 \<and> utf8_cont c2 \<and> utf8_cont c3 \<and> 0x10000 \<le> cp
                      then Some (cp, 4) else None)
              | _ \<Rightarrow> None)
           else None))"

definition digit_width :: "string \<Rightarrow> nat" where
  \<comment> \<open>the number of bytes of the decimal digit at the head of a text, 0 when there is none\<close>
  "digit_width s =
     (case utf8_head s of
        None \<Rightarrow> 0
      | Some (cp, n) \<Rightarrow> if is_decimal cp then n else 0)"

fun digits_width :: "nat \<Rightarrow> string \<Rightarrow> nat" where
  \<comment> \<open>\<open>digits_width 0 s\<close> is the number of bytes of the longest run of decimal digits at the
      head of \<open>s\<close>; the first argument counts the bytes still to pass of a digit already
      recognised\<close>
  "digits_width k [] = 0"
| "digits_width k (c # cs) =
     (if 0 < k then Suc (digits_width (k - 1) cs)
      else if 0 < digit_width (c # cs) then Suc (digits_width (digit_width (c # cs) - 1) cs)
      else 0)"

definition version_at :: "string \<Rightarrow> string option" where
  \<comment> \<open>the pattern of line 77 matched at the head of the text: the host, then three
      non-empty runs of digits separated by points; each run is greedy, and giving a
      digit back cannot help, since a point must follow\<close>
  "version_at s =
     (if take (length BE_HOST) s \<noteq> BE_HOST then None
      else
        let r1 = drop (length BE_HOST) s;
            a = take (digits_width 0 r1) r1; r2 = drop (digits_width 0 r1) r1;
            b = take (digits_width 0 (drop 1 r2)) (drop 1 r2);
            r3 = drop (digits_width 0 (drop 1 r2)) (drop 1 r2);
            c = take (digits_width 0 (drop 1 r3)) (drop 1 r3)
        in if a \<noteq> [] \<and> take 1 r2 = ''.'' \<and> b \<noteq> [] \<and> take 1 r3 = ''.'' \<and> c \<noteq> []
           then Some (a @ ''.'' @ b @ ''.'' @ c) else None)"

fun re_search :: "string \<Rightarrow> string option" where
  \<comment> \<open>\<^verbatim>\<open>re.search\<close>: the leftmost position at which the pattern matches; the value is group 1\<close>
  "re_search [] = None"
| "re_search (c # cs) =
     (case version_at (c # cs) of Some v \<Rightarrow> Some v | None \<Rightarrow> re_search cs)"

definition api_version_response :: "http_reply \<Rightarrow> py_exn + string" where
  \<comment> \<open>lines 74 and 75: the request raises when there is no response, and
      \<^verbatim>\<open>raise_for_status\<close> raises on an error status; otherwise the text of the reply\<close>
  "api_version_response reply =
     (case reply of
        NoResponse \<Rightarrow> Inl RequestException
      | Response status text \<Rightarrow>
          if raise_for_status status then Inl (HTTPError status text) else Inr text)"

definition get_current_api_version :: "string \<Rightarrow> http_reply \<Rightarrow> string \<times> event list" where
  \<comment> \<open>from the global \<^verbatim>\<open>API_VERSION\<close> and the reply of the build number page to the new
      value of the global; an exception of the body is caught at line 87 and logged\<close>
  "get_current_api_version api_version reply =
     (case api_version_response reply of
        Inl e \<Rightarrow> (api_version, [GetBuildNumber, Log (ApiVersionRequestFailed e)])
      | Inr text \<Rightarrow>
          (case re_search text of
             Some new_version \<Rightarrow>
               if new_version \<noteq> api_version then
                 (new_version, [GetBuildNumber, Log (ApiVersionUpdated api_version new_version)])
               else (api_version, [GetBuildNumber, Log (ApiVersionCurrent api_version)])
           | None \<Rightarrow> (api_version, [GetBuildNumber, Log ApiVersionNotExtracted])))"

section \<open>The fare fetcher\<close>

record money =
  money_amount :: "rat option"
  money_currencyCode :: "string option"

datatype price_field = PriceMissing | PriceNull | PriceObj money

record flight =
  flight_date :: "string option"
  flight_priceType :: "string option"
  flight_price :: price_field

datatype fare_body = NotJson | Chart "flight list option"

datatype fare_reply = NoFareResponse | FareResponse nat string fare_body

text \<open>
  A fare-chart reply is the status, the text and the parsed body. The body is an object
  whose \<^verbatim>\<open>outboundFlights\<close> (absent: \<open>None\<close>) lists calendar entries; an entry has
  an optional date, an optional price type and a \<^verbatim>\<open>price\<close> that is absent, null or an
  object with an optional numeric amount and an optional currency code. An absent field
  and a null one read the same through \<^verbatim>\<open>.get\<close>, except for \<^verbatim>\<open>price\<close>, where null
  makes the second \<^verbatim>\<open>.get\<close> raise. \<open>NotJson\<close> is a body on which \<^verbatim>\<open>resp.json()\<close> raises.
\<close>

definition farechart_url :: "string \<Rightarrow> string" where
  "farechart_url api_version = BE_HOST @ api_version @ ''/Api/asset/farechart''"

fun find_price :: "string \<Rightarrow> flight list \<Rightarrow> py_exn + ((rat \<times> string) option \<times> log_record list)" where
  \<comment> \<open>the loop of lines 149 to 162\<close>
  "find_price target_date [] = Inr (None, [PriceNotFound target_date])"
| "find_price target_date (f # fs) =
     (if flight_date f = Some target_date then
        (if flight_priceType f = Some ''price'' then
           (case flight_price f of
              PriceNull \<Rightarrow> Inl AttributeError
            | PriceMissing \<Rightarrow> find_price target_date fs
            | PriceObj m \<Rightarrow>
                (case (money_amount m, money_currencyCode m) of
                   (Some price, Some currency) \<Rightarrow>
                     if price \<noteq> 0 \<and> currency \<noteq> [] then Inr (Some (price, currency), [])
                     else find_price target_date fs
                 | _ \<Rightarrow> find_price target_date fs))
         else Inr (None, [NoPriceAvailable target_date (flight_priceType f)]))
      else find_price target_date fs)"

definition check_route_price ::
  "string \<Rightarrow> string \<Rightarrow> string \<Rightarrow> string \<Rightarrow> int \<Rightarrow> fare_reply \<Rightarrow> (rat \<times> string) option \<times> event list" where
  \<comment> \<open>the first argument is the global \<^verbatim>\<open>API_VERSION\<close>, the last the upstream's reply\<close>
  "check_route_price api_version origin destination depart_date adults reply =
     (let post = PostFareChart (farechart_url api_version) origin destination
                   (depart_date @ ''T00:00:00'') adults
      in case reply of
        NoFareResponse \<Rightarrow>
          (None, [post, Log (FareRequestFailed origin destination RequestException)])
      | FareResponse status text body \<Rightarrow>
          if raise_for_status status then
            (None, [post, Log (FareHttpError origin destination status text)])
          else
            (case body of
               NotJson \<Rightarrow> (None, [post, Log (FareRequestFailed origin destination ValueError)])
             | Chart flights \<Rightarrow>
                 (let target_date = depart_date @ ''T00:00:00'';
                      outbound_flights = (case flights of None \<Rightarrow> [] | Some fs \<Rightarrow> fs)
                  in case find_price target_date outbound_flights of
                       Inl e \<Rightarrow> (None, [post, Log (FareRequestFailed origin destination e)])
                     | Inr (result, logs) \<Rightarrow> (result, post # map Log logs))))"

section \<open>The price store\<close>

text \<open>
  The store is a Python dict from route id to observation, kept in insertion order as
  an association list with one entry per key. \<open>dict_set\<close> is the assignment
  \<^verbatim>\<open>d[k] = v\<close>, \<open>map_of\<close> is \<^verbatim>\<open>d.get(k)\<close>.
\<close>

fun dict_set :: "string \<Rightarrow> observation \<Rightarrow> store \<Rightarrow> store" where
  "dict_set k v [] = [(k, v)]"
| "dict_set k v ((k', v') # d) = (if k' = k then (k, v) # d else (k', v') # dict_set k v d)"

datatype prev_file = PrevAbsent | PrevUnreadable | PrevStored store

datatype write_outcome = WriteOk | WriteFails py_exn prev_file

text \<open>
  \<open>prev_file\<close> is the state of \<^verbatim>\<open>prev_prices.json\<close>: absent, present but not loadable (reading
  or parsing raises), or holding a store. \<open>write_outcome\<close> is what the file system does
  with the write of lines 183 and 184: it succeeds, or it raises and leaves the file in
  some state.
\<close>

definition load_prev_prices :: "prev_file \<Rightarrow> store \<times> event list" where
  "load_prev_prices f =
     (case f of
        PrevStored d \<Rightarrow> (d, [ReadPrevPrices])
      | PrevUnreadable \<Rightarrow> ([], [ReadPrevPrices])
      | PrevAbsent \<Rightarrow> ([], [ReadPrevPrices]))"

definition save_prev_prices :: "write_outcome \<Rightarrow> store \<Rightarrow> prev_file \<times> event list" where
  \<comment> \<open>the exception of a failed write is caught at line 185 and logged\<close>
  "save_prev_prices w data =
     (case w of
        WriteOk \<Rightarrow> (PrevStored data, [WritePrevPrices data])
      | WriteFails e left \<Rightarrow> (left, [WritePrevPrices data, Log (PrevPricesWriteFailed e)]))"

section \<open>The monitoring loop\<close>

datatype routes_file =
  RoutesAbsent
  | RoutesUnreadable py_exn
  | RoutesLoaded "(route \<times> fare_reply) list"

text \<open>
  \<open>routes_file\<close> is the state of \<^verbatim>\<open>routes.json\<close> at the start of a pass: absent, present
  but raising when opened or parsed, or holding the routes, each written here with the
  reply the upstream gives to its one request of the pass.
\<close>

record pass_env =
  env_build_number :: http_reply
  env_routes :: routes_file
  env_write :: write_outcome

record state =
  st_api_version :: string
  st_prev_file :: prev_file

definition py_truthy :: "rat option \<Rightarrow> bool" where
  \<comment> \<open>the truth value of a number or \<^verbatim>\<open>None\<close>\<close>
  "py_truthy x = (case x of None \<Rightarrow> False | Some p \<Rightarrow> p \<noteq> 0)"

definition route_step ::
  "(string \<rightharpoonup> string) \<Rightarrow> string \<Rightarrow> store \<Rightarrow> nat \<Rightarrow> nat \<Rightarrow> route \<Rightarrow> fare_reply \<Rightarrow>
     store \<times> bool \<Rightarrow> (store \<times> bool) \<times> event list" where
  \<comment> \<open>the body of the loop over the routes, lines 213 to 251\<close>
  "route_step airport_codes api_version prev_prices n_routes idx r reply acc =
     (let cur_prices = fst acc; any_changes = snd acc;
          route_id = get_route_id r;
          origin_city = get_city_name_with_code airport_codes (route_origin r);
          destination_city = get_city_name_with_code airport_codes (route_destination r);
          checking = Log (CheckingRoute idx n_routes origin_city destination_city route_id);
          (result, fetch_events) =
            check_route_price api_version (route_origin r) (route_destination r)
              (route_depart_date r) (case route_adults r of None \<Rightarrow> 1 | Some a \<Rightarrow> a) reply
      in case result of
           None \<Rightarrow>
             ((cur_prices, any_changes),
              checking # fetch_events
                @ send_telegram (FetchFailed origin_city destination_city (route_depart_date r))
                @ [Sleep ROUTE_DELAY_SECONDS])
         | Some (price, currency) \<Rightarrow>
             (let old_price_data = map_of prev_prices route_id;
                  cur_prices' =
                    dict_set route_id \<lparr>obs_price = price, obs_currency = currency\<rparr> cur_prices
              in if (case old_price_data of
                       None \<Rightarrow> True
                     | Some old \<Rightarrow> FLOAT_0_01 < \<bar>py_sub price (obs_price old)\<bar>)
                 then
                   (let old_price = map_option obs_price old_price_data;
                        old_currency = map_option obs_currency old_price_data;
                        arrow = (case old_price of
                                   None \<Rightarrow> Down
                                 | Some p \<Rightarrow> if py_truthy old_price \<and> p < price then Up else Down);
                        old_text = (case (old_price, old_currency) of
                                      (Some p, Some c) \<Rightarrow>
                                        if py_truthy old_price then format_price p c else EN_DASH
                                    | _ \<Rightarrow> EN_DASH);
                        msg = PriceChanged arrow origin_city destination_city
                                (route_depart_date r) (format_price price currency) old_text
                    in ((cur_prices', True),
                        checking # fetch_events @ send_telegram msg @ [Sleep ROUTE_DELAY_SECONDS]))
                 else
                   ((cur_prices', any_changes),
                    checking # fetch_events
                      @ [Log (PriceUnchanged origin_city destination_city),
                         Sleep ROUTE_DELAY_SECONDS])))"

fun route_loop ::
  "(string \<rightharpoonup> string) \<Rightarrow> string \<Rightarrow> store \<Rightarrow> nat \<Rightarrow> nat \<Rightarrow> (route \<times> fare_reply) list \<Rightarrow>
     store \<times> bool \<Rightarrow> (store \<times> bool) \<times> event list" where
  "route_loop airport_codes api_version prev_prices n_routes idx [] acc = (acc, [])"
| "route_loop airport_codes api_version prev_prices n_routes idx ((r, reply) # rest) acc =
     (let (acc', ev) = route_step airport_codes api_version prev_prices n_routes idx r reply acc;
          (res, ev') = route_loop airport_codes api_version prev_prices n_routes (idx + 1) rest acc'
      in (res, ev @ ev'))"

definition pass ::
  "(string \<rightharpoonup> string) \<Rightarrow> pass_env \<Rightarrow> state \<Rightarrow> (py_exn + state) \<times> event list" where
  \<comment> \<open>one turn of \<^verbatim>\<open>while True\<close>, lines 196 to 259: \<open>Inl\<close> is an exception that leaves
      \<^verbatim>\<open>main_loop\<close> and ends the process, \<open>Inr\<close> the state with which the next turn starts\<close>
  "pass airport_codes env s =
     (let (api_version, ev_version) =
            get_current_api_version (st_api_version s) (env_build_number env);
          s1 = s\<lparr>st_api_version := api_version\<rparr>;
          ev1 = ev_version @ [Log (UsingApiVersion api_version)]
      in case env_routes env of
           RoutesAbsent \<Rightarrow>
             (Inr s1, ev1 @ [Log RoutesFileMissing, Sleep (CHECK_INTERVAL_MINUTES * 60)])
         | RoutesUnreadable e \<Rightarrow> (Inl e, ev1)
         | RoutesLoaded routes \<Rightarrow>
             (let (prev_prices, ev_load) = load_prev_prices (st_prev_file s);
                  ((cur_prices, any_changes), ev_routes) =
                    route_loop airport_codes api_version prev_prices (length routes) 1 routes
                      (prev_prices, False);
                  (file', ev_save) = save_prev_prices (env_write env) cur_prices
              in (Inr (s1\<lparr>st_prev_file := file'\<rparr>),
                  ev1 @ ev_load @ ev_routes @ ev_save
                    @ (if any_changes then [] else [Log NoPriceChanges])
                    @ [Log (NextCheckIn CHECK_INTERVAL_MINUTES),
                       Sleep (CHECK_INTERVAL_MINUTES * 60)])))"

fun main_loop ::
  "(string \<rightharpoonup> string) \<Rightarrow> pass_env list \<Rightarrow> state \<Rightarrow> (py_exn + state) \<times> event list" where
  \<comment> \<open>the first passes of the endless loop, one per environment of the list\<close>
  "main_loop airport_codes [] s = (Inr s, [])"
| "main_loop airport_codes (env # envs) s =
     (case pass airport_codes env s of
        (Inl e, ev) \<Rightarrow> (Inl e, ev)
      | (Inr s', ev) \<Rightarrow>
          (let (res, ev') = main_loop airport_codes envs s' in (res, ev @ ev')))"

section \<open>Notions the properties are stated with\<close>

definition fetch ::
  "string \<Rightarrow> route \<times> fare_reply \<Rightarrow> (rat \<times> string) option" where
  \<comment> \<open>the result of the pass's request for a route\<close>
  "fetch api_version rr =
     fst (check_route_price api_version (route_origin (fst rr)) (route_destination (fst rr))
       (route_depart_date (fst rr))
       (case route_adults (fst rr) of None \<Rightarrow> 1 | Some a \<Rightarrow> a) (snd rr))"

fun successes :: "string \<Rightarrow> (route \<times> fare_reply) list \<Rightarrow> store" where
  \<comment> \<open>the successful observations of a pass, in the order of the routes\<close>
  "successes api_version [] = []"
| "successes api_version (rr # rest) =
     (case fetch api_version rr of
        None \<Rightarrow> successes api_version rest
      | Some (price, currency) \<Rightarrow>
          (get_route_id (fst rr), \<lparr>obs_price = price, obs_currency = currency\<rparr>)
            # successes api_version rest)"

definition overlay :: "store \<Rightarrow> store \<Rightarrow> store" where
  \<comment> \<open>a store with the entries of a list assigned to it one after the other\<close>
  "overlay d kvs = foldl (\<lambda>d kv. dict_set (fst kv) (snd kv) d) d kvs"

fun writes :: "event list \<Rightarrow> store list" where
  "writes [] = []"
| "writes (WritePrevPrices d # evs) = d # writes evs"
| "writes (e # evs) = writes evs"

fun posts :: "event list \<Rightarrow> string list" where
  \<comment> \<open>the addresses of the fare requests\<close>
  "posts [] = []"
| "posts (PostFareChart url origin destination date adults # evs) = url # posts evs"
| "posts (e # evs) = posts evs"

fun telegrams :: "event list \<Rightarrow> message list" where
  "telegrams [] = []"
| "telegrams (SendTelegram m # evs) = m # telegrams evs"
| "telegrams (e # evs) = telegrams evs"

fun store_accesses :: "event list \<Rightarrow> nat" where
  \<comment> \<open>how often the file of the store is read or written\<close>
  "store_accesses [] = 0"
| "store_accesses (ReadPrevPrices # evs) = Suc (store_accesses evs)"
| "store_accesses (WritePrevPrices d # evs) = Suc (store_accesses evs)"
| "store_accesses (e # evs) = store_accesses evs"

fun sleeps :: "event list \<Rightarrow> nat list" where
  \<comment> \<open>the waits, in seconds\<close>
  "sleeps [] = []"
| "sleeps (Sleep n # evs) = n # sleeps evs"
| "sleeps (e # evs) = sleeps evs"

definition resolved_version :: "state \<Rightarrow> pass_env \<Rightarrow> string" where
  \<comment> \<open>the value of \<^verbatim>\<open>API_VERSION\<close> after the resolver's call of a pass\<close>
  "resolved_version s env =
     fst (get_current_api_version (st_api_version s) (env_build_number env))"


definition prior_store :: "state \<Rightarrow> store" where
  \<comment> \<open>the store a pass loads\<close>
  "prior_store s = fst (load_prev_prices (st_prev_file s))"

definition committed_store :: "state \<Rightarrow> pass_env \<Rightarrow> (route \<times> fare_reply) list \<Rightarrow> store" where
  \<comment> \<open>the prior store overlaid with the successful observations of the pass\<close>
  "committed_store s env rs = overlay (prior_store s) (successes (resolved_version s env) rs)"

subsection \<open>Example inputs\<close>

definition route_OTP_LTN :: route where
  "route_OTP_LTN =
     \<lparr>route_origin = ''OTP'', route_destination = ''LTN'',
      route_depart_date = ''2025-06-01'', route_adults = None\<rparr>"

definition priced_entry :: "rat \<Rightarrow> string \<Rightarrow> flight" where
  \<comment> \<open>a calendar entry for the date of \<open>route_OTP_LTN\<close> with a sellable price\<close>
  "priced_entry a c =
     \<lparr>flight_date = Some ''2025-06-01T00:00:00'', flight_priceType = Some ''price'',
      flight_price = PriceObj \<lparr>money_amount = Some a, money_currencyCode = Some c\<rparr>\<rparr>"

definition priced_reply :: "rat \<Rightarrow> string \<Rightarrow> fare_reply" where
  "priced_reply a c = FareResponse 200 [] (Chart (Some [priced_entry a c]))"

definition state0 :: state where
  "state0 = \<lparr>st_api_version = DEFAULT_API_VERSION, st_prev_file = PrevAbsent\<rparr>"

definition route_LTN_OTP :: route where
  "route_LTN_OTP =
     \<lparr>route_origin = ''LTN'', route_destination = ''OTP'',
      route_depart_date = ''2025-06-08'', route_adults = Some 2\<rparr>"

definition sold_out_entry :: flight where
  \<comment> \<open>a calendar entry for the date of \<open>route_OTP_LTN\<close> with no sellable fare\<close>
  "sold_out_entry =
     \<lparr>flight_date = Some ''2025-06-01T00:00:00'', flight_priceType = Some ''soldOut'',
      flight_price = PriceMissing\<rparr>"

definition other_date_entry :: flight where
  "other_date_entry =
     \<lparr>flight_date = Some ''2025-06-02T00:00:00'', flight_priceType = Some ''price'',
      flight_price = PriceObj \<lparr>money_amount = Some 100, money_currencyCode = Some ''EUR''\<rparr>\<rparr>"

definition env_two_routes :: pass_env where
  \<comment> \<open>two routes: the first fetch succeeds, the second gets no response\<close>
  "env_two_routes =
     \<lparr>env_build_number = NoResponse,
      env_routes = RoutesLoaded [(route_OTP_LTN, priced_reply 100 ''EUR''),
                                 (route_LTN_OTP, NoFareResponse)],
      env_write = WriteOk\<rparr>"

definition env_same_route_twice :: pass_env where
  \<comment> \<open>one flight listed for one adult and for two: the first fetch succeeds, the second
      gets no response\<close>
  "env_same_route_twice =
     \<lparr>env_build_number = NoResponse,
      env_routes = RoutesLoaded [(route_OTP_LTN, priced_reply 100 ''EUR''),
                                 (route_OTP_LTN\<lparr>route_adults := Some 2\<rparr>, NoFareResponse)],
      env_write = WriteOk\<rparr>"

definition env_write_fails :: pass_env where
  "env_write_fails =
     \<lparr>env_build_number = NoResponse,
      env_routes = RoutesLoaded [(route_OTP_LTN, priced_reply 100 ''EUR'')],
      env_write = WriteFails OSError PrevAbsent\<rparr>"

definition env_one_route :: "rat \<Rightarrow> pass_env" where
  "env_one_route a =
     \<lparr>env_build_number = NoResponse,
      env_routes = RoutesLoaded [(route_OTP_LTN, priced_reply a ''EUR'')],
      env_write = WriteOk\<rparr>"

definition state_two_prices :: state where
  "state_two_prices =
     \<lparr>st_api_version = DEFAULT_API_VERSION,
      st_prev_file = PrevStored
        [(''LTN-OTP-2025-06-08'', \<lparr>obs_price = 90, obs_currency = ''EUR''\<rparr>),
         (''OTP-LTN-2025-06-01'', \<lparr>obs_price = 80, obs_currency = ''EUR''\<rparr>)]\<rparr>"

definition state_zero_price :: state where
  "state_zero_price =
     \<lparr>st_api_version = DEFAULT_API_VERSION,
      st_prev_file = PrevStored
        [(''OTP-LTN-2025-06-01'', \<lparr>obs_price = 0, obs_currency = ''EUR''\<rparr>)]\<rparr>"


definition env_new_version :: pass_env where
  \<comment> \<open>the build number page names a new version; two routes\<close>
  "env_new_version =
     \<lparr>env_build_number = Response 200 ''SSR https://be.wizzair.com/27.37.1'',
      env_routes = RoutesLoaded [(route_OTP_LTN, priced_reply 100 ''EUR''),
                                 (route_LTN_OTP, NoFareResponse)],
      env_write = WriteOk\<rparr>"


section \<open>Traces\<close>

lemma posts_append: "posts (xs @ ys) = posts xs @ posts ys"
  by (induction xs rule: posts.induct) simp_all

lemma writes_append: "writes (xs @ ys) = writes xs @ writes ys"
  by (induction xs rule: writes.induct) simp_all

lemma telegrams_append: "telegrams (xs @ ys) = telegrams xs @ telegrams ys"
  by (induction xs rule: telegrams.induct) simp_all

lemma store_accesses_append:
  "store_accesses (xs @ ys) = store_accesses xs + store_accesses ys"
  by (induction xs rule: store_accesses.induct) simp_all

lemma sleeps_append: "sleeps (xs @ ys) = sleeps xs @ sleeps ys"
  by (induction xs rule: sleeps.induct) simp_all

lemma logs_silent:
  "posts (map Log ls) = []" "writes (map Log ls) = []" "telegrams (map Log ls) = []"
  "store_accesses (map Log ls) = 0" "sleeps (map Log ls) = []"
  by (induction ls) simp_all

lemma version_events:
  "posts (snd (get_current_api_version v reply)) = []"
  "writes (snd (get_current_api_version v reply)) = []"
  "telegrams (snd (get_current_api_version v reply)) = []"
  "store_accesses (snd (get_current_api_version v reply)) = 0"
  "sleeps (snd (get_current_api_version v reply)) = []"
  by (simp_all add: get_current_api_version_def api_version_response_def
      split: http_reply.splits option.splits)

lemma check_route_price_events:
  "posts (snd (check_route_price v orig dest d a reply)) = [farechart_url v]"
  "writes (snd (check_route_price v orig dest d a reply)) = []"
  "telegrams (snd (check_route_price v orig dest d a reply)) = []"
  "store_accesses (snd (check_route_price v orig dest d a reply)) = 0"
  "sleeps (snd (check_route_price v orig dest d a reply)) = []"
  by (simp_all add: check_route_price_def Let_def logs_silent
      split: fare_reply.splits fare_body.splits sum.splits prod.splits)

section \<open>The store and the loop over the routes\<close>

lemma map_of_dict_set: "map_of (dict_set k v d) = (map_of d)(k \<mapsto> v)"
  by (induction d) (auto simp: fun_eq_iff)

lemma map_of_overlay: "map_of (overlay d kvs) = map_of d ++ map_of (rev kvs)"
  unfolding overlay_def
proof (induction kvs arbitrary: d)
  case Nil
  then show ?case by simp
next
  case (Cons kv kvs)
  show ?case
    by (simp add: Cons.IH map_of_dict_set map_add_def fun_eq_iff split: option.splits)
qed

lemma overlay_Cons: "overlay d (kv # kvs) = overlay (dict_set (fst kv) (snd kv) d) kvs"
  by (simp add: overlay_def)

lemma route_step_store:
  "fst (fst (route_step ac v prev n idx r reply acc)) =
     (case fetch v (r, reply) of
        None \<Rightarrow> fst acc
      | Some (p, c) \<Rightarrow> dict_set (get_route_id r) \<lparr>obs_price = p, obs_currency = c\<rparr> (fst acc))"
  by (simp add: route_step_def fetch_def Let_def split: prod.splits option.splits)

lemma route_loop_store:
  "fst (fst (route_loop ac v prev n idx rs acc)) = overlay (fst acc) (successes v rs)"
proof (induction rs arbitrary: idx acc)
  case Nil
  then show ?case by (simp add: overlay_def)
next
  case (Cons rr rs)
  obtain r reply where rr: "rr = (r, reply)" by (cases rr)
  obtain acc' ev where st: "route_step ac v prev n idx r reply acc = (acc', ev)"
    by (cases "route_step ac v prev n idx r reply acc")
  have "fst acc' = (case fetch v (r, reply) of
        None \<Rightarrow> fst acc
      | Some (p, c) \<Rightarrow> dict_set (get_route_id r) \<lparr>obs_price = p, obs_currency = c\<rparr> (fst acc))"
    using route_step_store [of ac v prev n idx r reply acc] st by simp
  then show ?case
    using Cons.IH [of "idx + 1" acc']
    by (simp add: rr st overlay_Cons case_prod_beta split: option.splits)
qed

lemma route_step_events:
  "posts (snd (route_step ac v prev n idx r reply acc)) = [farechart_url v]"
  "writes (snd (route_step ac v prev n idx r reply acc)) = []"
  "store_accesses (snd (route_step ac v prev n idx r reply acc)) = 0"
  "sleeps (snd (route_step ac v prev n idx r reply acc)) = [ROUTE_DELAY_SECONDS]"
proof -
  obtain res fev where c: "check_route_price v (route_origin r) (route_destination r)
      (route_depart_date r) (case route_adults r of None \<Rightarrow> 1 | Some a \<Rightarrow> a) reply = (res, fev)"
    by (cases "check_route_price v (route_origin r) (route_destination r)
      (route_depart_date r) (case route_adults r of None \<Rightarrow> 1 | Some a \<Rightarrow> a) reply")
  have e: "posts fev = [farechart_url v]" "writes fev = []" "store_accesses fev = 0" "sleeps fev = []"
    using check_route_price_events [of v "route_origin r" "route_destination r"
      "route_depart_date r" "case route_adults r of None \<Rightarrow> 1 | Some a \<Rightarrow> a" reply] c by simp_all
  show "posts (snd (route_step ac v prev n idx r reply acc)) = [farechart_url v]"
    by (simp add: route_step_def c e Let_def send_telegram_def posts_append
        split: option.splits prod.splits)
  show "writes (snd (route_step ac v prev n idx r reply acc)) = []"
    by (simp add: route_step_def c e Let_def send_telegram_def writes_append
        split: option.splits prod.splits)
  show "store_accesses (snd (route_step ac v prev n idx r reply acc)) = 0"
    by (simp add: route_step_def c e Let_def send_telegram_def store_accesses_append
        split: option.splits prod.splits)
  show "sleeps (snd (route_step ac v prev n idx r reply acc)) = [ROUTE_DELAY_SECONDS]"
    by (simp add: route_step_def c e Let_def send_telegram_def sleeps_append
        split: option.splits prod.splits)
qed

lemma route_loop_events:
  "posts (snd (route_loop ac v prev n idx rs acc)) = replicate (length rs) (farechart_url v)
   \<and> writes (snd (route_loop ac v prev n idx rs acc)) = []
   \<and> store_accesses (snd (route_loop ac v prev n idx rs acc)) = 0
   \<and> sleeps (snd (route_loop ac v prev n idx rs acc)) = replicate (length rs) ROUTE_DELAY_SECONDS"
proof (induction rs arbitrary: idx acc)
  case Nil
  then show ?case by simp
next
  case (Cons rr rs)
  obtain r reply where rr: "rr = (r, reply)" by (cases rr)
  obtain acc' ev where st: "route_step ac v prev n idx r reply acc = (acc', ev)"
    by (cases "route_step ac v prev n idx r reply acc")
  have e: "posts ev = [farechart_url v]" "writes ev = []" "store_accesses ev = 0"
    "sleeps ev = [ROUTE_DELAY_SECONDS]"
    using route_step_events [of ac v prev n idx r reply acc] st by simp_all
  show ?case
    using Cons.IH [of "idx + 1" acc']
    by (simp add: rr st e posts_append writes_append store_accesses_append sleeps_append
        case_prod_beta)
qed

lemma pass_routes_loaded:
  assumes "env_routes env = RoutesLoaded rs"
  shows "pass ac env s =
     (Inr \<lparr>st_api_version = resolved_version s env,
           st_prev_file = fst (save_prev_prices (env_write env)
             (overlay (fst (load_prev_prices (st_prev_file s)))
                (successes (resolved_version s env) rs)))\<rparr>,
      snd (get_current_api_version (st_api_version s) (env_build_number env))
        @ [Log (UsingApiVersion (resolved_version s env))]
        @ snd (load_prev_prices (st_prev_file s))
        @ snd (route_loop ac (resolved_version s env) (fst (load_prev_prices (st_prev_file s)))
                 (length rs) 1 rs (fst (load_prev_prices (st_prev_file s)), False))
        @ snd (save_prev_prices (env_write env)
             (overlay (fst (load_prev_prices (st_prev_file s)))
                (successes (resolved_version s env) rs)))
        @ (if snd (fst (route_loop ac (resolved_version s env) (fst (load_prev_prices (st_prev_file s)))
                 (length rs) 1 rs (fst (load_prev_prices (st_prev_file s)), False))) then []
           else [Log NoPriceChanges])
        @ [Log (NextCheckIn CHECK_INTERVAL_MINUTES), Sleep (CHECK_INTERVAL_MINUTES * 60)])"
proof -
  let ?v = "resolved_version s env"
  let ?prev = "fst (load_prev_prices (st_prev_file s))"
  obtain cur any ev where rl:
    "route_loop ac ?v ?prev (length rs) 1 rs (?prev, False) = ((cur, any), ev)"
    by (cases "route_loop ac ?v ?prev (length rs) 1 rs (?prev, False)") auto
  have "cur = overlay ?prev (successes ?v rs)"
    using route_loop_store [of ac ?v ?prev "length rs" 1 rs "(?prev, False)"] rl by simp
  then show ?thesis
    using assms rl
    by (cases s) (simp add: pass_def resolved_version_def case_prod_beta)
qed

lemma pass_raises_iff:
  "fst (pass ac env s) = Inl e \<longleftrightarrow> env_routes env = RoutesUnreadable e"
  by (cases "env_routes env") (simp_all add: pass_def case_prod_beta)

lemma main_loop_step:
  assumes "fst (pass ac env s) = Inr s'"
  shows "main_loop ac (env # envs) s =
           (fst (main_loop ac envs s'), snd (pass ac env s) @ snd (main_loop ac envs s'))"
  using assms by (cases "pass ac env s") (simp add: case_prod_beta)

lemma pass_sleeps:
  assumes "env_routes env = RoutesLoaded rs"
  shows "sleeps (snd (pass ac env s)) =
           replicate (length rs) ROUTE_DELAY_SECONDS @ [CHECK_INTERVAL_MINUTES * 60]"
  by (simp add: pass_routes_loaded [OF assms] sleeps_append version_events route_loop_events
      load_prev_prices_def save_prev_prices_def
      split: prev_file.splits write_outcome.splits)

lemma pass_writes:
  assumes "env_routes env = RoutesLoaded rs"
  shows "writes (snd (pass ac env s)) =
           [overlay (fst (load_prev_prices (st_prev_file s))) (successes (resolved_version s env) rs)]"
  by (simp add: pass_routes_loaded [OF assms] writes_append version_events route_loop_events
      load_prev_prices_def save_prev_prices_def
      split: prev_file.splits write_outcome.splits)

lemma pass_posts:
  assumes "env_routes env = RoutesLoaded rs"
  shows "posts (snd (pass ac env s)) = replicate (length rs) (farechart_url (resolved_version s env))"
  by (simp add: pass_routes_loaded [OF assms] posts_append version_events route_loop_events
      load_prev_prices_def save_prev_prices_def
      split: prev_file.splits write_outcome.splits)

lemma pass_file_after_write:
  assumes "env_routes env = RoutesLoaded rs" and "env_write env = WriteOk"
  shows "fst (pass ac env s) =
           Inr \<lparr>st_api_version = resolved_version s env,
                st_prev_file = PrevStored (committed_store s env rs)\<rparr>"
  by (simp add: pass_routes_loaded [OF assms(1)] assms(2) save_prev_prices_def
      committed_store_def prior_store_def)

lemma pass_telegrams:
  assumes "env_routes env = RoutesLoaded rs"
  shows "telegrams (snd (pass ac env s)) =
           telegrams (snd (route_loop ac (resolved_version s env) (prior_store s) (length rs) 1 rs
             (prior_store s, False)))"
  by (simp add: pass_routes_loaded [OF assms] telegrams_append version_events prior_store_def
      load_prev_prices_def save_prev_prices_def
      split: prev_file.splits write_outcome.splits)

lemma successes_append: "successes v (xs @ ys) = successes v xs @ successes v ys"
  by (induction xs) (simp_all split: option.splits)

lemma successes_keys:
  "k \<in> fst ` set (successes v rs) \<longleftrightarrow>
     (\<exists>rr\<in>set rs. get_route_id (fst rr) = k \<and> fetch v rr \<noteq> None)"
proof (induction rs)
  case Nil
  then show ?case by simp
next
  case (Cons rr rs)
  show ?case
  proof (cases "fetch v rr")
    case None
    then show ?thesis using Cons.IH by simp
  next
    case (Some pc)
    then have "k \<in> fst ` set (successes v (rr # rs)) \<longleftrightarrow>
        k = get_route_id (fst rr) \<or> k \<in> fst ` set (successes v rs)"
      by (cases pc) auto
    then show ?thesis using Cons.IH Some by auto
  qed
qed

lemma map_of_rev_last:
  assumes "k \<notin> fst ` set after"
  shows "map_of (rev (before @ (k, obs) # after)) k = Some obs"
proof -
  have "map_of (rev after) k = None"
    using assms by (simp add: map_of_eq_None_iff)
  then show ?thesis by (simp add: map_add_def)
qed

lemma committed_unchanged:
  assumes "\<forall>rr\<in>set rs. get_route_id (fst rr) = k \<longrightarrow> fetch (resolved_version s env) rr = None"
  shows "map_of (committed_store s env rs) k = map_of (prior_store s) k"
proof -
  have "k \<notin> fst ` set (successes (resolved_version s env) rs)"
    using assms by (auto simp: successes_keys)
  then have "map_of (rev (successes (resolved_version s env) rs)) k = None"
    by (simp add: map_of_eq_None_iff)
  then show ?thesis
    by (simp add: committed_store_def map_of_overlay map_add_def)
qed

lemma committed_last:
  assumes "rs = before @ rr # after"
    and "fetch (resolved_version s env) rr = Some (p, c)"
    and "\<forall>rr'\<in>set after. get_route_id (fst rr') = get_route_id (fst rr)
           \<longrightarrow> fetch (resolved_version s env) rr' = None"
  shows "map_of (committed_store s env rs) (get_route_id (fst rr))
           = Some \<lparr>obs_price = p, obs_currency = c\<rparr>"
proof -
  let ?v = "resolved_version s env"
  have k: "get_route_id (fst rr) \<notin> fst ` set (successes ?v after)"
    using assms(3) by (auto simp: successes_keys)
  have "successes ?v rs = successes ?v before
          @ (get_route_id (fst rr), \<lparr>obs_price = p, obs_currency = c\<rparr>) # successes ?v after"
    by (simp add: assms(1,2) successes_append)
  then have "map_of (rev (successes ?v rs)) (get_route_id (fst rr))
               = Some \<lparr>obs_price = p, obs_currency = c\<rparr>"
    using map_of_rev_last [OF k] by simp
  then show ?thesis
    by (simp add: committed_store_def map_of_overlay map_add_def)
qed

lemma pass_commit_position:
  assumes "env_routes env = RoutesLoaded rs"
  shows "\<exists>pre post. snd (pass ac env s) = pre @ WritePrevPrices (committed_store s env rs) # post
           \<and> posts pre = replicate (length rs) (farechart_url (resolved_version s env))
           \<and> posts post = [] \<and> writes pre = [] \<and> writes post = []"
proof -
  let ?v = "resolved_version s env"
  let ?prev = "fst (load_prev_prices (st_prev_file s))"
  let ?rl = "route_loop ac ?v ?prev (length rs) 1 rs (?prev, False)"
  let ?pre = "snd (get_current_api_version (st_api_version s) (env_build_number env))
        @ [Log (UsingApiVersion ?v)] @ snd (load_prev_prices (st_prev_file s)) @ snd ?rl"
  let ?post = "tl (snd (save_prev_prices (env_write env) (committed_store s env rs)))
        @ (if snd (fst ?rl) then [] else [Log NoPriceChanges])
        @ [Log (NextCheckIn CHECK_INTERVAL_MINUTES), Sleep (CHECK_INTERVAL_MINUTES * 60)]"
  have sv: "snd (save_prev_prices (env_write env) (committed_store s env rs))
          = WritePrevPrices (committed_store s env rs)
              # tl (snd (save_prev_prices (env_write env) (committed_store s env rs)))"
    by (simp add: save_prev_prices_def split: write_outcome.splits)
  have "snd (pass ac env s) = ?pre @ WritePrevPrices (committed_store s env rs) # ?post"
    apply (simp add: pass_routes_loaded [OF assms])
    apply (subst (2) committed_store_def)
    apply (subst sv [unfolded committed_store_def prior_store_def])
    apply (simp add: committed_store_def prior_store_def)
    done
  moreover have "posts ?pre = replicate (length rs) (farechart_url ?v)"
    by (simp add: posts_append version_events route_loop_events load_prev_prices_def
        split: prev_file.splits)
  moreover have "writes ?pre = []"
    by (simp add: writes_append version_events route_loop_events load_prev_prices_def
        split: prev_file.splits)
  moreover have "posts ?post = []" "writes ?post = []"
    by (simp_all add: posts_append writes_append save_prev_prices_def split: write_outcome.splits)
  ultimately show ?thesis by blast
qed



lemma route_step_notification:
  assumes "fetch v (r, reply) = Some (price, currency)"
  shows "telegrams (snd (route_step ac v prev n idx r reply acc)) =
     (case map_of prev (get_route_id r) of
        None \<Rightarrow>
          [PriceChanged Down (get_city_name_with_code ac (route_origin r))
             (get_city_name_with_code ac (route_destination r)) (route_depart_date r)
             (format_price price currency) EN_DASH]
      | Some old \<Rightarrow>
          if FLOAT_0_01 < \<bar>py_sub price (obs_price old)\<bar> then
            [PriceChanged (if obs_price old \<noteq> 0 \<and> obs_price old < price then Up else Down)
               (get_city_name_with_code ac (route_origin r))
               (get_city_name_with_code ac (route_destination r)) (route_depart_date r)
               (format_price price currency)
               (if obs_price old \<noteq> 0 then format_price (obs_price old) (obs_currency old)
                else EN_DASH)]
          else [])"
proof -
  obtain res fev where c: "check_route_price v (route_origin r) (route_destination r)
      (route_depart_date r) (case route_adults r of None \<Rightarrow> 1 | Some a \<Rightarrow> a) reply = (res, fev)"
    by (cases "check_route_price v (route_origin r) (route_destination r)
      (route_depart_date r) (case route_adults r of None \<Rightarrow> 1 | Some a \<Rightarrow> a) reply")
  have e: "telegrams fev = []"
    using check_route_price_events(3) [of v "route_origin r" "route_destination r"
      "route_depart_date r" "case route_adults r of None \<Rightarrow> 1 | Some a \<Rightarrow> a" reply] c by simp
  have f: "res = Some (price, currency)"
    using assms by (simp add: fetch_def c)
  show ?thesis
    by (simp add: route_step_def c e f Let_def send_telegram_def telegrams_append py_truthy_def
        split: option.splits)
qed

section \<open>The fare fetcher\<close>

lemma find_price_skip:
  "\<forall>g\<in>set pre. flight_date g \<noteq> Some t \<Longrightarrow> find_price t (pre @ rest) = find_price t rest"
  by (induction pre) simp_all

lemma find_price_no_match:
  "\<forall>f\<in>set fs. flight_date f \<noteq> Some t \<Longrightarrow> find_price t fs = Inr (None, [PriceNotFound t])"
  by (induction fs) simp_all

lemma find_price_first_match:
  assumes "\<forall>g\<in>set pre. flight_date g \<noteq> Some t"
    and "flight_date f = Some t" and "flight_priceType f = Some ''price''"
    and "flight_price f = PriceObj m"
    and "money_amount m = Some a" and "money_currencyCode m = Some c"
    and "a \<noteq> 0" and "c \<noteq> []"
  shows "find_price t (pre @ f # rest) = Inr (Some (a, c), [])"
  using assms by (simp add: find_price_skip)

lemma check_route_price_success:
  assumes "\<not> raise_for_status status"
    and "\<forall>g\<in>set pre. flight_date g \<noteq> Some (depart_date @ ''T00:00:00'')"
    and "flight_date f = Some (depart_date @ ''T00:00:00'')"
    and "flight_priceType f = Some ''price''"
    and "flight_price f = PriceObj m"
    and "money_amount m = Some a" and "money_currencyCode m = Some c"
    and "a \<noteq> 0" and "c \<noteq> []"
  shows "fst (check_route_price v orig dest depart_date n
            (FareResponse status text (Chart (Some (pre @ f # rest))))) = Some (a, c)"
  using assms(1) find_price_first_match [OF assms(2-9), of rest]
  by (simp add: check_route_price_def)

lemma fetch_no_response: "fetch v (r, NoFareResponse) = None"
  by (simp add: fetch_def check_route_price_def)

lemma fetch_priced_reply:
  "a \<noteq> 0 \<Longrightarrow> fetch v (route_OTP_LTN, priced_reply a ''EUR'') = Some (a, ''EUR'')"
  by (simp add: fetch_def check_route_price_def raise_for_status_def priced_reply_def
      priced_entry_def route_OTP_LTN_def)

section \<open>Values of the examples\<close>

lemma eval_threshold_5: "FLOAT_0_01 < \<bar>py_sub 5 0\<bar>"
  unfolding FLOAT_0_01_def py_sub_def by code_simp

lemma eval_fmt_5: "format_price 5 ''EUR'' = ''5.00 EUR''"
  by (simp add: format_price_def fmt2_def rhe_def digit_char_def)


lemma eval_version_no_response:
  "resolved_version \<lparr>st_api_version = v, st_prev_file = f\<rparr>
     \<lparr>env_build_number = NoResponse, env_routes = rs, env_write = w\<rparr> = v"
  by (simp add: resolved_version_def get_current_api_version_def api_version_response_def)

lemma eval_routes_two:
  "env_routes env_two_routes =
     RoutesLoaded [(route_OTP_LTN, priced_reply 100 ''EUR''), (route_LTN_OTP, NoFareResponse)]"
  by (simp add: env_two_routes_def)

lemma eval_ids:
  "get_route_id route_OTP_LTN = ''OTP-LTN-2025-06-01''"
  "get_route_id route_LTN_OTP = ''LTN-OTP-2025-06-08''"
  by (simp_all add: get_route_id_def route_OTP_LTN_def route_LTN_OTP_def)


lemma eval_successes_two:
  "successes v [(route_OTP_LTN, priced_reply 100 ''EUR''), (route_LTN_OTP, NoFareResponse)]
     = [(''OTP-LTN-2025-06-01'', \<lparr>obs_price = 100, obs_currency = ''EUR''\<rparr>)]"
  by (simp add: fetch_priced_reply fetch_no_response eval_ids)

section \<open>The routes file is missing\<close>





section \<open>Change classification\<close>

text \<open>
  C1: a price of 0 in the store and a new price above it. The store of the example holds
  the amount 0 for the route and the upstream returns the amount 5, so the difference
  exceeds 0.01 and the price went up; the one message of the pass carries the arrow
  \<open>Down\<close>, and the placeholder where the old price belongs. Line 239 tests the old
  amount for truth, so a stored 0 counts as no old price. For every other stored amount
  \<open>route_step_notification\<close> gives the arrow \<open>Up\<close> exactly when the new amount is
  the larger one, and no message when the computed difference is at most 0.01.
\<close>

theorem C1_zero_prior_arrow:
  "prior_store state_zero_price
     = [(''OTP-LTN-2025-06-01'', \<lparr>obs_price = 0, obs_currency = ''EUR''\<rparr>)]
   \<and> fetch DEFAULT_API_VERSION (route_OTP_LTN, priced_reply 5 ''EUR'') = Some (5, ''EUR'')
   \<and> telegrams (snd (pass Map.empty (env_one_route 5) state_zero_price))
       = [PriceChanged Down ''OTP'' ''LTN'' ''2025-06-01'' ''5.00 EUR'' EN_DASH]"
proof -
  have r: "env_routes (env_one_route 5) = RoutesLoaded [(route_OTP_LTN, priced_reply 5 ''EUR'')]"
    by (simp add: env_one_route_def)
  have v: "resolved_version state_zero_price (env_one_route 5) = DEFAULT_API_VERSION"
    by (simp add: resolved_version_def state_zero_price_def env_one_route_def
        get_current_api_version_def api_version_response_def)
  have p: "prior_store state_zero_price
     = [(''OTP-LTN-2025-06-01'', \<lparr>obs_price = 0, obs_currency = ''EUR''\<rparr>)]"
    by (simp add: prior_store_def state_zero_price_def load_prev_prices_def)
  have f: "fetch DEFAULT_API_VERSION (route_OTP_LTN, priced_reply 5 ''EUR'') = Some (5, ''EUR'')"
    by (simp add: fetch_priced_reply)
  have st: "telegrams (snd (route_step Map.empty DEFAULT_API_VERSION
         [(''OTP-LTN-2025-06-01'', \<lparr>obs_price = 0, obs_currency = ''EUR''\<rparr>)] 1 1
         route_OTP_LTN (priced_reply 5 ''EUR'')
         ([(''OTP-LTN-2025-06-01'', \<lparr>obs_price = 0, obs_currency = ''EUR''\<rparr>)], False)))
       = [PriceChanged Down ''OTP'' ''LTN'' ''2025-06-01'' ''5.00 EUR'' EN_DASH]"
    using eval_threshold_5
      route_step_notification [OF f, of Map.empty
        "[(''OTP-LTN-2025-06-01'', \<lparr>obs_price = 0, obs_currency = ''EUR''\<rparr>)]" 1 1
        "([(''OTP-LTN-2025-06-01'', \<lparr>obs_price = 0, obs_currency = ''EUR''\<rparr>)], False)"]
    by (simp add: eval_fmt_5 get_city_name_with_code_def get_route_id_def route_OTP_LTN_def)
  have "telegrams (snd (pass Map.empty (env_one_route 5) state_zero_price))
       = [PriceChanged Down ''OTP'' ''LTN'' ''2025-06-01'' ''5.00 EUR'' EN_DASH]"
    using st by (simp add: pass_telegrams [OF r] v p case_prod_beta telegrams_append)
  with p f show ?thesis by simp
qed

text \<open>
  C9: for a route whose stored amount is exactly 0 and whose newly fetched amount differs
  from it by more than 0.01 (the difference and the bound as line 235 computes them), the
  loop body sends one message, with the arrow \<open>Down\<close> and with the placeholder
  \<open>EN_DASH\<close> in the place of the old price, whatever the new amount is, so also when
  the price went up.
\<close>

theorem C9_zero_prior_amount:
  assumes "map_of prev (get_route_id r) = Some old" and "obs_price old = 0"
    and "fetch v (r, reply) = Some (price, currency)"
    and "FLOAT_0_01 < \<bar>py_sub price (obs_price old)\<bar>"
  shows "telegrams (snd (route_step ac v prev n idx r reply acc)) =
           [PriceChanged Down (get_city_name_with_code ac (route_origin r))
              (get_city_name_with_code ac (route_destination r)) (route_depart_date r)
              (format_price price currency) EN_DASH]"
  using assms(1,2,4) by (simp add: route_step_notification [OF assms(3)])

theorem C9_zero_prior_amount_witness:
  "map_of [(''OTP-LTN-2025-06-01'', \<lparr>obs_price = 0, obs_currency = ''EUR''\<rparr>)]
       (get_route_id route_OTP_LTN) = Some \<lparr>obs_price = 0, obs_currency = ''EUR''\<rparr>
   \<and> fetch DEFAULT_API_VERSION (route_OTP_LTN, priced_reply 5 ''EUR'') = Some (5, ''EUR'')
   \<and> FLOAT_0_01 < \<bar>py_sub 5 0\<bar> \<and> (0::rat) < 5
   \<and> telegrams (snd (route_step Map.empty DEFAULT_API_VERSION
         [(''OTP-LTN-2025-06-01'', \<lparr>obs_price = 0, obs_currency = ''EUR''\<rparr>)] 1 1
         route_OTP_LTN (priced_reply 5 ''EUR'')
         ([(''OTP-LTN-2025-06-01'', \<lparr>obs_price = 0, obs_currency = ''EUR''\<rparr>)], False)))
       = [PriceChanged Down ''OTP'' ''LTN'' ''2025-06-01'' ''5.00 EUR'' EN_DASH]"
proof -
  have i: "map_of [(''OTP-LTN-2025-06-01'', \<lparr>obs_price = 0, obs_currency = ''EUR''\<rparr>)]
       (get_route_id route_OTP_LTN) = Some \<lparr>obs_price = 0, obs_currency = ''EUR''\<rparr>"
    by (simp add: get_route_id_def route_OTP_LTN_def)
  have f: "fetch DEFAULT_API_VERSION (route_OTP_LTN, priced_reply 5 ''EUR'') = Some (5, ''EUR'')"
    by (simp add: fetch_priced_reply)
  have t: "FLOAT_0_01 < \<bar>py_sub 5 (obs_price \<lparr>obs_price = 0, obs_currency = ''EUR''\<rparr>)\<bar>"
    using eval_threshold_5 by simp
  show ?thesis
    using C9_zero_prior_amount [OF i _ f t, of Map.empty 1 1
        "([(''OTP-LTN-2025-06-01'', \<lparr>obs_price = 0, obs_currency = ''EUR''\<rparr>)], False)"]
      i f eval_threshold_5
    by (simp add: eval_fmt_5 get_city_name_with_code_def route_OTP_LTN_def)
qed

section \<open>The commit of a pass\<close>

text \<open>
  C2, as stated, fails when two routes of the file have the same identity: the id is
  built from origin, destination and date, not from the number of adults. In the example
  the flight is listed for one adult and for two; the first fetch succeeds, the second
  fails, and the entry of the route whose fetch failed is not the one of the prior store.
\<close>

theorem C2_same_identity_counterexample:
  "fetch DEFAULT_API_VERSION (route_OTP_LTN\<lparr>route_adults := Some 2\<rparr>, NoFareResponse) = None
   \<and> map_of (prior_store state0) (get_route_id (route_OTP_LTN\<lparr>route_adults := Some 2\<rparr>)) = None
   \<and> writes (snd (pass Map.empty env_same_route_twice state0))
       = [[(''OTP-LTN-2025-06-01'', \<lparr>obs_price = 100, obs_currency = ''EUR''\<rparr>)]]
   \<and> map_of [(''OTP-LTN-2025-06-01'', \<lparr>obs_price = 100, obs_currency = ''EUR''\<rparr>)]
        (get_route_id (route_OTP_LTN\<lparr>route_adults := Some 2\<rparr>))
       = Some \<lparr>obs_price = 100, obs_currency = ''EUR''\<rparr>"
proof -
  have v: "resolved_version state0 env_same_route_twice = DEFAULT_API_VERSION"
    by (simp add: resolved_version_def state0_def env_same_route_twice_def get_current_api_version_def api_version_response_def)
  have r: "env_routes env_same_route_twice =
      RoutesLoaded [(route_OTP_LTN, priced_reply 100 ''EUR''),
                    (route_OTP_LTN\<lparr>route_adults := Some 2\<rparr>, NoFareResponse)]"
    by (simp add: env_same_route_twice_def)
  show ?thesis
    using pass_writes [OF r, of Map.empty state0]
    by (simp add: v prior_store_def state0_def load_prev_prices_def fetch_def
        check_route_price_def raise_for_status_def priced_reply_def priced_entry_def
        route_OTP_LTN_def overlay_def get_route_id_def)
qed

text \<open>
  C2, amended: a pass that loads its routes writes the store once, after the last fare
  request, and what it writes is the prior store overlaid with the successful
  observations of the pass. An identity none of whose fetches succeeded keeps the entry of
  the prior store (or stays absent); an identity with a successful fetch gets the
  observation of its last successful fetch. When the write succeeds, the file holds that
  store afterwards.
\<close>

theorem C2_commit_is_overlay:
  assumes "env_routes env = RoutesLoaded rs"
  shows "writes (snd (pass ac env s)) = [committed_store s env rs]
       \<and> (\<exists>pre post. snd (pass ac env s) = pre @ WritePrevPrices (committed_store s env rs) # post
             \<and> posts pre = replicate (length rs) (farechart_url (resolved_version s env))
             \<and> posts post = [])
       \<and> (\<forall>k. (\<forall>rr\<in>set rs. get_route_id (fst rr) = k
                   \<longrightarrow> fetch (resolved_version s env) rr = None)
             \<longrightarrow> map_of (committed_store s env rs) k = map_of (prior_store s) k)
       \<and> (\<forall>before rr after p c.
             rs = before @ rr # after \<and> fetch (resolved_version s env) rr = Some (p, c)
               \<and> (\<forall>rr'\<in>set after. get_route_id (fst rr') = get_route_id (fst rr)
                     \<longrightarrow> fetch (resolved_version s env) rr' = None)
             \<longrightarrow> map_of (committed_store s env rs) (get_route_id (fst rr))
                   = Some \<lparr>obs_price = p, obs_currency = c\<rparr>)
       \<and> (env_write env = WriteOk \<longrightarrow>
             fst (pass ac env s) =
               Inr \<lparr>st_api_version = resolved_version s env,
                    st_prev_file = PrevStored (committed_store s env rs)\<rparr>)"
proof -
  have w: "writes (snd (pass ac env s)) = [committed_store s env rs]"
    using pass_writes [OF assms, of ac s] by (simp add: committed_store_def prior_store_def)
  have pos: "\<exists>pre post. snd (pass ac env s) = pre @ WritePrevPrices (committed_store s env rs) # post
             \<and> posts pre = replicate (length rs) (farechart_url (resolved_version s env))
             \<and> posts post = []"
    using pass_commit_position [OF assms, of ac s] by blast
  have f: "\<forall>k. (\<forall>rr\<in>set rs. get_route_id (fst rr) = k
                   \<longrightarrow> fetch (resolved_version s env) rr = None)
             \<longrightarrow> map_of (committed_store s env rs) k = map_of (prior_store s) k"
    using committed_unchanged by blast
  have g: "\<forall>before rr after p c.
             rs = before @ rr # after \<and> fetch (resolved_version s env) rr = Some (p, c)
               \<and> (\<forall>rr'\<in>set after. get_route_id (fst rr') = get_route_id (fst rr)
                     \<longrightarrow> fetch (resolved_version s env) rr' = None)
             \<longrightarrow> map_of (committed_store s env rs) (get_route_id (fst rr))
                   = Some \<lparr>obs_price = p, obs_currency = c\<rparr>"
    using committed_last by blast
  have h: "env_write env = WriteOk \<longrightarrow>
             fst (pass ac env s) =
               Inr \<lparr>st_api_version = resolved_version s env,
                    st_prev_file = PrevStored (committed_store s env rs)\<rparr>"
    using pass_file_after_write [OF assms] by blast
  from w pos f g h show ?thesis by blast
qed

theorem C2_commit_is_overlay_witness:
  "env_routes env_two_routes =
     RoutesLoaded [(route_OTP_LTN, priced_reply 100 ''EUR''), (route_LTN_OTP, NoFareResponse)]
   \<and> prior_store state_two_prices
       = [(''LTN-OTP-2025-06-08'', \<lparr>obs_price = 90, obs_currency = ''EUR''\<rparr>),
          (''OTP-LTN-2025-06-01'', \<lparr>obs_price = 80, obs_currency = ''EUR''\<rparr>)]
   \<and> fetch DEFAULT_API_VERSION (route_OTP_LTN, priced_reply 100 ''EUR'') = Some (100, ''EUR'')
   \<and> fetch DEFAULT_API_VERSION (route_LTN_OTP, NoFareResponse) = None
   \<and> writes (snd (pass Map.empty env_two_routes state_two_prices))
       = [[(''LTN-OTP-2025-06-08'', \<lparr>obs_price = 90, obs_currency = ''EUR''\<rparr>),
           (''OTP-LTN-2025-06-01'', \<lparr>obs_price = 100, obs_currency = ''EUR''\<rparr>)]]
   \<and> map_of (committed_store state_two_prices env_two_routes
         [(route_OTP_LTN, priced_reply 100 ''EUR''), (route_LTN_OTP, NoFareResponse)])
         ''LTN-OTP-2025-06-08'' = Some \<lparr>obs_price = 90, obs_currency = ''EUR''\<rparr>
   \<and> map_of (committed_store state_two_prices env_two_routes
         [(route_OTP_LTN, priced_reply 100 ''EUR''), (route_LTN_OTP, NoFareResponse)])
         ''OTP-LTN-2025-06-01'' = Some \<lparr>obs_price = 100, obs_currency = ''EUR''\<rparr>
   \<and> fst (pass Map.empty env_two_routes state_two_prices)
       = Inr \<lparr>st_api_version = DEFAULT_API_VERSION,
              st_prev_file = PrevStored
                [(''LTN-OTP-2025-06-08'', \<lparr>obs_price = 90, obs_currency = ''EUR''\<rparr>),
                 (''OTP-LTN-2025-06-01'', \<lparr>obs_price = 100, obs_currency = ''EUR''\<rparr>)]\<rparr>"
proof -
  let ?rs = "[(route_OTP_LTN, priced_reply 100 ''EUR''), (route_LTN_OTP, NoFareResponse)]"
  note T = C2_commit_is_overlay [OF eval_routes_two, of Map.empty state_two_prices]
  have v: "resolved_version state_two_prices env_two_routes = DEFAULT_API_VERSION"
    by (simp add: state_two_prices_def env_two_routes_def eval_version_no_response)
  have p: "prior_store state_two_prices
       = [(''LTN-OTP-2025-06-08'', \<lparr>obs_price = 90, obs_currency = ''EUR''\<rparr>),
          (''OTP-LTN-2025-06-01'', \<lparr>obs_price = 80, obs_currency = ''EUR''\<rparr>)]"
    by (simp add: prior_store_def state_two_prices_def load_prev_prices_def)
  have c: "committed_store state_two_prices env_two_routes ?rs
       = [(''LTN-OTP-2025-06-08'', \<lparr>obs_price = 90, obs_currency = ''EUR''\<rparr>),
          (''OTP-LTN-2025-06-01'', \<lparr>obs_price = 100, obs_currency = ''EUR''\<rparr>)]"
    by (simp only: committed_store_def p v eval_successes_two) (simp add: overlay_def)
  have f1: "fetch DEFAULT_API_VERSION (route_OTP_LTN, priced_reply 100 ''EUR'') = Some (100, ''EUR'')"
    by (simp add: fetch_priced_reply)
  have f2: "fetch DEFAULT_API_VERSION (route_LTN_OTP, NoFareResponse) = None"
    by (simp add: fetch_no_response)
  have w: "writes (snd (pass Map.empty env_two_routes state_two_prices))
       = [[(''LTN-OTP-2025-06-08'', \<lparr>obs_price = 90, obs_currency = ''EUR''\<rparr>),
           (''OTP-LTN-2025-06-01'', \<lparr>obs_price = 100, obs_currency = ''EUR''\<rparr>)]]"
    using T c by simp
  have "\<forall>rr\<in>set ?rs. get_route_id (fst rr) = ''LTN-OTP-2025-06-08''
          \<longrightarrow> fetch (resolved_version state_two_prices env_two_routes) rr = None"
    by (simp add: eval_ids fetch_no_response)
  with T have "map_of (committed_store state_two_prices env_two_routes ?rs) ''LTN-OTP-2025-06-08''
      = map_of (prior_store state_two_prices) ''LTN-OTP-2025-06-08''"
    by blast
  then have k: "map_of (committed_store state_two_prices env_two_routes ?rs) ''LTN-OTP-2025-06-08''
      = Some \<lparr>obs_price = 90, obs_currency = ''EUR''\<rparr>"
    by (simp add: p)
  have "?rs = [] @ (route_OTP_LTN, priced_reply 100 ''EUR'') # [(route_LTN_OTP, NoFareResponse)]
      \<and> fetch (resolved_version state_two_prices env_two_routes)
            (route_OTP_LTN, priced_reply 100 ''EUR'') = Some (100, ''EUR'')
      \<and> (\<forall>rr'\<in>set [(route_LTN_OTP, NoFareResponse)].
            get_route_id (fst rr') = get_route_id (fst (route_OTP_LTN, priced_reply 100 ''EUR''))
            \<longrightarrow> fetch (resolved_version state_two_prices env_two_routes) rr' = None)"
    by (simp add: v f1 eval_ids)
  with T have "map_of (committed_store state_two_prices env_two_routes ?rs)
        (get_route_id (fst (route_OTP_LTN, priced_reply 100 ''EUR'')))
      = Some \<lparr>obs_price = 100, obs_currency = ''EUR''\<rparr>"
    by blast
  then have l: "map_of (committed_store state_two_prices env_two_routes ?rs) ''OTP-LTN-2025-06-01''
      = Some \<lparr>obs_price = 100, obs_currency = ''EUR''\<rparr>"
    by (simp add: eval_ids)
  have "env_write env_two_routes = WriteOk"
    by (simp add: env_two_routes_def)
  with T have "fst (pass Map.empty env_two_routes state_two_prices)
       = Inr \<lparr>st_api_version = resolved_version state_two_prices env_two_routes,
              st_prev_file = PrevStored (committed_store state_two_prices env_two_routes ?rs)\<rparr>"
    by blast
  then have e: "fst (pass Map.empty env_two_routes state_two_prices)
       = Inr \<lparr>st_api_version = DEFAULT_API_VERSION,
              st_prev_file = PrevStored
                [(''LTN-OTP-2025-06-08'', \<lparr>obs_price = 90, obs_currency = ''EUR''\<rparr>),
                 (''OTP-LTN-2025-06-01'', \<lparr>obs_price = 100, obs_currency = ''EUR''\<rparr>)]\<rparr>"
    by (simp add: v c)
  from eval_routes_two p f1 f2 w k l e show ?thesis by simp
qed

section \<open>A failed write of the store\<close>

text \<open>
  C3, as stated, fails: in the example the write of the store raises \<open>OSError\<close>, and the
  pass ends without an exception.
\<close>

theorem C3_write_failure_counterexample:
  "env_write env_write_fails = WriteFails OSError PrevAbsent
   \<and> fst (pass Map.empty env_write_fails state0) = Inr state0
   \<and> fst (pass Map.empty env_write_fails state0) \<noteq> Inl OSError"
proof -
  have r: "env_routes env_write_fails = RoutesLoaded [(route_OTP_LTN, priced_reply 100 ''EUR'')]"
    by (simp add: env_write_fails_def)
  have "fst (pass Map.empty env_write_fails state0) = Inr state0"
    by (simp add: pass_routes_loaded [OF r] save_prev_prices_def)
       (simp add: env_write_fails_def state0_def eval_version_no_response)
  then show ?thesis by (simp add: env_write_fails_def)
qed

text \<open>
  C3, amended: when the write of the store raises, the exception is caught in
  \<open>save_prev_prices\<close> and logged; the pass ends without an exception, after its waits,
  with the file as the failed write left it, and \<open>main_loop\<close> goes on with the next pass.
\<close>

theorem C3_write_failure_absorbed:
  assumes "env_routes env = RoutesLoaded rs" and "env_write env = WriteFails e left"
  shows "fst (pass ac env s) = Inr \<lparr>st_api_version = resolved_version s env, st_prev_file = left\<rparr>
       \<and> Log (PrevPricesWriteFailed e) \<in> set (snd (pass ac env s))
       \<and> sleeps (snd (pass ac env s)) =
           replicate (length rs) ROUTE_DELAY_SECONDS @ [CHECK_INTERVAL_MINUTES * 60]
       \<and> main_loop ac (env # envs) s =
           (fst (main_loop ac envs \<lparr>st_api_version = resolved_version s env, st_prev_file = left\<rparr>),
            snd (pass ac env s)
              @ snd (main_loop ac envs \<lparr>st_api_version = resolved_version s env, st_prev_file = left\<rparr>))"
proof -
  have r: "fst (pass ac env s) = Inr \<lparr>st_api_version = resolved_version s env, st_prev_file = left\<rparr>"
    by (simp add: pass_routes_loaded [OF assms(1)] assms(2) save_prev_prices_def)
  have l: "Log (PrevPricesWriteFailed e) \<in> set (snd (pass ac env s))"
    by (simp add: pass_routes_loaded [OF assms(1)] assms(2) save_prev_prices_def)
  show ?thesis
    using r l pass_sleeps [OF assms(1), of ac s] main_loop_step [OF r, of envs] by simp
qed

theorem C3_write_failure_absorbed_witness:
  "env_routes env_write_fails = RoutesLoaded [(route_OTP_LTN, priced_reply 100 ''EUR'')]
   \<and> env_write env_write_fails = WriteFails OSError PrevAbsent
   \<and> fst (pass Map.empty env_write_fails state0) = Inr state0
   \<and> Log (PrevPricesWriteFailed OSError) \<in> set (snd (pass Map.empty env_write_fails state0))
   \<and> sleeps (snd (pass Map.empty env_write_fails state0)) = [5, 3600]"
proof -
  have r: "env_routes env_write_fails = RoutesLoaded [(route_OTP_LTN, priced_reply 100 ''EUR'')]"
    by (simp add: env_write_fails_def)
  have w: "env_write env_write_fails = WriteFails OSError PrevAbsent"
    by (simp add: env_write_fails_def)
  have v: "resolved_version state0 env_write_fails = DEFAULT_API_VERSION"
    by (simp add: env_write_fails_def state0_def eval_version_no_response)
  show ?thesis
    using C3_write_failure_absorbed [OF r w, of Map.empty state0 "[]"] r w
    by (simp add: v [unfolded state0_def] state0_def ROUTE_DELAY_SECONDS_def
        CHECK_INTERVAL_MINUTES_def)
qed

section \<open>The result of a fetch\<close>

text \<open>
  C4: an entry for the requested date with a sellable price, the amount 0 and the
  currency EUR. The fetch returns \<open>None\<close> and logs that no price was found: line 154
  tests the amount for truth, and 0 is false. \<open>check_route_price_success\<close> is the
  claim for every other amount: the first entry of the requested date, when it has a
  sellable price, a non-zero amount and a non-empty currency code, is what the fetch
  returns.
\<close>

theorem C4_zero_amount:
  "check_route_price DEFAULT_API_VERSION ''OTP'' ''LTN'' ''2025-06-01'' 1 (priced_reply 0 ''EUR'')
     = (None,
        [PostFareChart ''https://be.wizzair.com/27.36.0/Api/asset/farechart'' ''OTP'' ''LTN''
           ''2025-06-01T00:00:00'' 1,
         Log (PriceNotFound ''2025-06-01T00:00:00'')])"
  by (simp add: check_route_price_def raise_for_status_def priced_reply_def priced_entry_def
      farechart_url_def BE_HOST_def DEFAULT_API_VERSION_def)

text \<open>
  C5, as stated, fails: the fetch returns \<open>None\<close> whatever the failure. In the example
  a calendar without the date, a sold-out entry, a reply with status 503 and no reply at
  all give the same value.
\<close>

theorem C5_same_return_value_counterexample:
  "fst (check_route_price DEFAULT_API_VERSION ''OTP'' ''LTN'' ''2025-06-01'' 1
         (FareResponse 200 [] (Chart (Some [other_date_entry])))) = None
   \<and> fst (check_route_price DEFAULT_API_VERSION ''OTP'' ''LTN'' ''2025-06-01'' 1
         (FareResponse 200 [] (Chart (Some [sold_out_entry])))) = None
   \<and> fst (check_route_price DEFAULT_API_VERSION ''OTP'' ''LTN'' ''2025-06-01'' 1
         (FareResponse 503 ''Service Unavailable'' NotJson)) = None
   \<and> fst (check_route_price DEFAULT_API_VERSION ''OTP'' ''LTN'' ''2025-06-01'' 1
         NoFareResponse) = None"
  by (simp add: check_route_price_def raise_for_status_def other_date_entry_def
      sold_out_entry_def)

text \<open>
  C5, amended: every failure returns \<open>None\<close>, and the kinds differ in the one error
  record the fetch logs: the request failed (no response), an HTTP error with the status
  and the text of the reply, no entry for the date, or an entry for the date that is not
  sellable, with its price type.
\<close>

theorem C5_failures_return_none:
  "(reply = NoFareResponse \<longrightarrow>
      check_route_price v orig dest depart_date n reply
        = (None, [PostFareChart (farechart_url v) orig dest (depart_date @ ''T00:00:00'') n,
                  Log (FareRequestFailed orig dest RequestException)]))
   \<and> (\<forall>status text body. reply = FareResponse status text body \<and> raise_for_status status \<longrightarrow>
         check_route_price v orig dest depart_date n reply
           = (None, [PostFareChart (farechart_url v) orig dest (depart_date @ ''T00:00:00'') n,
                     Log (FareHttpError orig dest status text)]))
   \<and> (\<forall>status text fs. reply = FareResponse status text (Chart (Some fs))
           \<and> \<not> raise_for_status status
           \<and> (\<forall>f\<in>set fs. flight_date f \<noteq> Some (depart_date @ ''T00:00:00'')) \<longrightarrow>
         check_route_price v orig dest depart_date n reply
           = (None, [PostFareChart (farechart_url v) orig dest (depart_date @ ''T00:00:00'') n,
                     Log (PriceNotFound (depart_date @ ''T00:00:00''))]))
   \<and> (\<forall>status text pre f rest. reply = FareResponse status text (Chart (Some (pre @ f # rest)))
           \<and> \<not> raise_for_status status
           \<and> (\<forall>g\<in>set pre. flight_date g \<noteq> Some (depart_date @ ''T00:00:00''))
           \<and> flight_date f = Some (depart_date @ ''T00:00:00'')
           \<and> flight_priceType f \<noteq> Some ''price'' \<longrightarrow>
         check_route_price v orig dest depart_date n reply
           = (None, [PostFareChart (farechart_url v) orig dest (depart_date @ ''T00:00:00'') n,
                     Log (NoPriceAvailable (depart_date @ ''T00:00:00'') (flight_priceType f))]))"
proof -
  have a: "reply = NoFareResponse \<longrightarrow>
      check_route_price v orig dest depart_date n reply
        = (None, [PostFareChart (farechart_url v) orig dest (depart_date @ ''T00:00:00'') n,
                  Log (FareRequestFailed orig dest RequestException)])"
    by (simp add: check_route_price_def)
  have b: "\<forall>status text body. reply = FareResponse status text body \<and> raise_for_status status \<longrightarrow>
         check_route_price v orig dest depart_date n reply
           = (None, [PostFareChart (farechart_url v) orig dest (depart_date @ ''T00:00:00'') n,
                     Log (FareHttpError orig dest status text)])"
    by (simp add: check_route_price_def)
  have c: "\<forall>status text fs. reply = FareResponse status text (Chart (Some fs))
           \<and> \<not> raise_for_status status
           \<and> (\<forall>f\<in>set fs. flight_date f \<noteq> Some (depart_date @ ''T00:00:00'')) \<longrightarrow>
         check_route_price v orig dest depart_date n reply
           = (None, [PostFareChart (farechart_url v) orig dest (depart_date @ ''T00:00:00'') n,
                     Log (PriceNotFound (depart_date @ ''T00:00:00''))])"
    by (simp add: check_route_price_def find_price_no_match)
  have d: "\<forall>status text pre f rest. reply = FareResponse status text (Chart (Some (pre @ f # rest)))
           \<and> \<not> raise_for_status status
           \<and> (\<forall>g\<in>set pre. flight_date g \<noteq> Some (depart_date @ ''T00:00:00''))
           \<and> flight_date f = Some (depart_date @ ''T00:00:00'')
           \<and> flight_priceType f \<noteq> Some ''price'' \<longrightarrow>
         check_route_price v orig dest depart_date n reply
           = (None, [PostFareChart (farechart_url v) orig dest (depart_date @ ''T00:00:00'') n,
                     Log (NoPriceAvailable (depart_date @ ''T00:00:00'') (flight_priceType f))])"
    by (simp add: check_route_price_def find_price_skip)
  from a b c d show ?thesis by blast
qed

theorem C5_failures_return_none_witness:
  "check_route_price DEFAULT_API_VERSION ''OTP'' ''LTN'' ''2025-06-01'' 1 NoFareResponse
     = (None, [PostFareChart (farechart_url DEFAULT_API_VERSION) ''OTP'' ''LTN''
                 ''2025-06-01T00:00:00'' 1,
               Log (FareRequestFailed ''OTP'' ''LTN'' RequestException)])
   \<and> check_route_price DEFAULT_API_VERSION ''OTP'' ''LTN'' ''2025-06-01'' 1
        (FareResponse 503 ''Service Unavailable'' NotJson)
     = (None, [PostFareChart (farechart_url DEFAULT_API_VERSION) ''OTP'' ''LTN''
                 ''2025-06-01T00:00:00'' 1,
               Log (FareHttpError ''OTP'' ''LTN'' 503 ''Service Unavailable'')])
   \<and> check_route_price DEFAULT_API_VERSION ''OTP'' ''LTN'' ''2025-06-01'' 1
        (FareResponse 200 [] (Chart (Some [other_date_entry])))
     = (None, [PostFareChart (farechart_url DEFAULT_API_VERSION) ''OTP'' ''LTN''
                 ''2025-06-01T00:00:00'' 1,
               Log (PriceNotFound ''2025-06-01T00:00:00'')])
   \<and> check_route_price DEFAULT_API_VERSION ''OTP'' ''LTN'' ''2025-06-01'' 1
        (FareResponse 200 [] (Chart (Some [other_date_entry, sold_out_entry])))
     = (None, [PostFareChart (farechart_url DEFAULT_API_VERSION) ''OTP'' ''LTN''
                 ''2025-06-01T00:00:00'' 1,
               Log (NoPriceAvailable ''2025-06-01T00:00:00'' (Some ''soldOut''))])"
proof -
  have s1: "raise_for_status 503" by (simp add: raise_for_status_def)
  have s2: "\<not> raise_for_status 200" by (simp add: raise_for_status_def)
  have d1: "\<forall>f\<in>set [other_date_entry]. flight_date f \<noteq> Some (''2025-06-01'' @ ''T00:00:00'')"
    by (simp add: other_date_entry_def)
  have d2: "flight_date sold_out_entry = Some (''2025-06-01'' @ ''T00:00:00'')"
    by (simp add: sold_out_entry_def)
  have d3: "flight_priceType sold_out_entry \<noteq> Some ''price''"
    by (simp add: sold_out_entry_def)
  have d4: "flight_priceType sold_out_entry = Some ''soldOut''"
    by (simp add: sold_out_entry_def)
  have ap: "''2025-06-01'' @ ''T00:00:00'' = ''2025-06-01T00:00:00''"
    by simp
  have l: "[other_date_entry, sold_out_entry] = [other_date_entry] @ sold_out_entry # []"
    by simp
  note a = C5_failures_return_none [of NoFareResponse DEFAULT_API_VERSION "''OTP''" "''LTN''"
        "''2025-06-01''" 1, THEN conjunct1, rule_format, OF refl]
  note b = C5_failures_return_none [of "FareResponse 503 ''Service Unavailable'' NotJson"
        DEFAULT_API_VERSION "''OTP''" "''LTN''" "''2025-06-01''" 1,
        THEN conjunct2, THEN conjunct1, rule_format, OF conjI [OF refl s1]]
  note c = C5_failures_return_none [of "FareResponse 200 [] (Chart (Some [other_date_entry]))"
        DEFAULT_API_VERSION "''OTP''" "''LTN''" "''2025-06-01''" 1,
        THEN conjunct2, THEN conjunct2, THEN conjunct1, rule_format,
        OF conjI [OF refl conjI [OF s2 d1]]]
  note d = C5_failures_return_none
       [of "FareResponse 200 [] (Chart (Some ([other_date_entry] @ sold_out_entry # [])))"
        DEFAULT_API_VERSION "''OTP''" "''LTN''" "''2025-06-01''" 1,
        THEN conjunct2, THEN conjunct2, THEN conjunct2, rule_format,
        OF conjI [OF refl conjI [OF s2 conjI [OF d1 conjI [OF d2 d3]]]]]
  show ?thesis
    unfolding l
    using a b c d unfolding ap d4 by (intro conjI)
qed

section \<open>The version resolver in a pass\<close>

text \<open>
  C6, as stated, fails for a status outside 2xx that is no error status: the resolver
  gives up on the statuses for which \<^verbatim>\<open>raise_for_status\<close> raises, 4xx and 5xx. In the
  example the reply has the status 304 and the pattern in its text, and the version is
  replaced.
\<close>

theorem C6_status_304_counterexample:
  "\<not> (200 \<le> (304::nat) \<and> (304::nat) < 300)
   \<and> fst (get_current_api_version ''27.36.0'' (Response 304 ''https://be.wizzair.com/27.37.1''))
       = ''27.37.1''
   \<and> ''27.37.1'' \<noteq> ''27.36.0''"
  by (simp add: get_current_api_version_def api_version_response_def raise_for_status_def
      version_at_def BE_HOST_def digit_width_def utf8_head_def is_decimal_def ND_STARTS_def)

text \<open>
  C6, amended: whenever the request for the build number raises (no response, or an error
  status 4xx or 5xx), the resolver catches the exception, logs it and leaves the API
  version what it was, and so it does when the pattern is not found in the text; when the
  status is no error status and the pattern is found, the version becomes the one found.
  A pass that loads its routes sends each of its fare requests to the address made of the
  host, the version the resolver returned and the path of the fare chart.
\<close>

theorem C6_version_resolver:
  "(\<forall>e. api_version_response reply = Inl e \<longrightarrow>
        get_current_api_version v reply
          = (v, [GetBuildNumber, Log (ApiVersionRequestFailed e)]))
   \<and> (reply = NoResponse \<longrightarrow> fst (get_current_api_version v reply) = v)
   \<and> (\<forall>status text. reply = Response status text
           \<and> (raise_for_status status \<or> re_search text = None)
         \<longrightarrow> fst (get_current_api_version v reply) = v)
   \<and> (\<forall>status text new_version.
         reply = Response status text \<and> \<not> raise_for_status status
           \<and> re_search text = Some new_version
         \<longrightarrow> fst (get_current_api_version v reply) = new_version)
   \<and> (\<forall>rs. env_routes env = RoutesLoaded rs \<longrightarrow>
         posts (snd (pass ac env s))
           = replicate (length rs)
               (''https://be.wizzair.com/''
                  @ fst (get_current_api_version (st_api_version s) (env_build_number env))
                  @ ''/Api/asset/farechart''))"
proof -
  have a: "\<forall>e. api_version_response reply = Inl e \<longrightarrow>
        get_current_api_version v reply
          = (v, [GetBuildNumber, Log (ApiVersionRequestFailed e)])"
    by (simp add: get_current_api_version_def)
  have b: "reply = NoResponse \<longrightarrow> fst (get_current_api_version v reply) = v"
    by (simp add: get_current_api_version_def api_version_response_def)
  have c: "\<forall>status text. reply = Response status text
           \<and> (raise_for_status status \<or> re_search text = None)
         \<longrightarrow> fst (get_current_api_version v reply) = v"
    by (auto simp: get_current_api_version_def api_version_response_def)
  have d: "\<forall>status text new_version.
         reply = Response status text \<and> \<not> raise_for_status status
           \<and> re_search text = Some new_version
         \<longrightarrow> fst (get_current_api_version v reply) = new_version"
    by (auto simp: get_current_api_version_def api_version_response_def)
  have e: "\<forall>rs. env_routes env = RoutesLoaded rs \<longrightarrow>
         posts (snd (pass ac env s))
           = replicate (length rs)
               (''https://be.wizzair.com/''
                  @ fst (get_current_api_version (st_api_version s) (env_build_number env))
                  @ ''/Api/asset/farechart'')"
    using pass_posts [of env _ ac s]
    by (simp add: farechart_url_def BE_HOST_def resolved_version_def)
  from a b c d e show ?thesis by (intro conjI)
qed

theorem C6_version_resolver_witness:
  "get_current_api_version ''27.36.0'' NoResponse
     = (''27.36.0'', [GetBuildNumber, Log (ApiVersionRequestFailed RequestException)])
   \<and> get_current_api_version ''27.36.0'' (Response 503 ''https://be.wizzair.com/27.37.1'')
     = (''27.36.0'',
        [GetBuildNumber,
         Log (ApiVersionRequestFailed (HTTPError 503 ''https://be.wizzair.com/27.37.1''))])
   \<and> fst (get_current_api_version ''27.36.0'' (Response 200 ''maintenance'')) = ''27.36.0''
   \<and> fst (get_current_api_version ''27.36.0'' (Response 200 ''SSR https://be.wizzair.com/27.37.1''))
       = ''27.37.1''
   \<and> posts (snd (pass Map.empty env_new_version state0))
       = [''https://be.wizzair.com/27.37.1/Api/asset/farechart'',
          ''https://be.wizzair.com/27.37.1/Api/asset/farechart'']"
proof -
  have s1: "raise_for_status 503" by (simp add: raise_for_status_def)
  have s2: "\<not> raise_for_status 200" by (simp add: raise_for_status_def)
  have n: "re_search ''maintenance'' = None"
    by (simp add: version_at_def BE_HOST_def)
  have m: "re_search ''SSR https://be.wizzair.com/27.37.1'' = Some ''27.37.1''"
    by (simp add: version_at_def BE_HOST_def digit_width_def utf8_head_def is_decimal_def
        ND_STARTS_def)
  have r1: "api_version_response NoResponse = Inl RequestException"
    by (simp add: api_version_response_def)
  have r2: "api_version_response (Response 503 ''https://be.wizzair.com/27.37.1'')
      = Inl (HTTPError 503 ''https://be.wizzair.com/27.37.1'')"
    by (simp add: api_version_response_def s1)
  have r: "env_routes env_new_version = RoutesLoaded [(route_OTP_LTN, priced_reply 100 ''EUR''),
                                 (route_LTN_OTP, NoFareResponse)]"
    by (simp add: env_new_version_def)
  note a = C6_version_resolver [of NoResponse "''27.36.0''" env_new_version Map.empty state0,
      THEN conjunct1, rule_format, OF r1]
  note b = C6_version_resolver [of "Response 503 ''https://be.wizzair.com/27.37.1''" "''27.36.0''"
      env_new_version Map.empty state0, THEN conjunct1, rule_format, OF r2]
  note c = C6_version_resolver [of "Response 200 ''maintenance''" "''27.36.0''"
      env_new_version Map.empty state0, THEN conjunct2, THEN conjunct2, THEN conjunct1,
      rule_format, OF conjI [OF refl disjI2 [OF n]]]
  note d = C6_version_resolver [of "Response 200 ''SSR https://be.wizzair.com/27.37.1''"
      "''27.36.0''" env_new_version Map.empty state0,
      THEN conjunct2, THEN conjunct2, THEN conjunct2, THEN conjunct1,
      rule_format, OF conjI [OF refl conjI [OF s2 m]]]
  note e = C6_version_resolver [of NoResponse "''27.36.0''" env_new_version Map.empty state0,
      THEN conjunct2, THEN conjunct2, THEN conjunct2, THEN conjunct2, rule_format, OF r]
  have sv: "st_api_version state0 = ''27.36.0''"
    by (simp add: state0_def DEFAULT_API_VERSION_def)
  have bn: "env_build_number env_new_version = Response 200 ''SSR https://be.wizzair.com/27.37.1''"
    by (simp add: env_new_version_def)
  have "posts (snd (pass Map.empty env_new_version state0))
       = [''https://be.wizzair.com/27.37.1/Api/asset/farechart'',
          ''https://be.wizzair.com/27.37.1/Api/asset/farechart'']"
    using e by (simp add: sv bn d)
  with a b c d show ?thesis by (intro conjI)
qed

section \<open>An unreadable store\<close>



end
